theory Spec2Isabelle
  imports Main "HOL-Library.Word"
begin

section \<open>Go values, types and errors\<close>

text \<open>
  The package moves configuration values around as \<^verbatim>\<open>interface{}\<close>. A non-nil interface
  holds a dynamic type and a value; the nil interface is \<open>None\<close> of \<open>gval option\<close>.

  \<open>gtype\<close> is \<^verbatim>\<open>reflect.Type\<close>: the predeclared types, \<^verbatim>\<open>map[string]interface{}\<close>,
  \<^verbatim>\<open>interface{}\<close>, \<^verbatim>\<open>error\<close>, a defined type with its package and its name, and pointers.
  Two types are the same only when they are the same here: \<^verbatim>\<open>int64\<close> is not \<^verbatim>\<open>int8\<close>, and a
  defined type over \<^verbatim>\<open>string\<close> is not \<^verbatim>\<open>string\<close>.
\<close>

datatype ikind = KInt | KInt8 | KInt16 | KInt32 | KInt64 | KUint | KUint8 | KUint16 | KUint32 | KUint64

datatype gtype =
    TBool
  | TInt ikind
  | TFloat64
  | TString
  | TMap
  | TIface
  | TError
  | TNamed string string
  | TPtr gtype

text \<open>
  The values: \<open>VInt k i\<close> is the integer \<open>i\<close> of the integer type \<open>k\<close>, \<open>VFloat64 b\<close> the
  \<^verbatim>\<open>float64\<close> with the bits \<open>b\<close>, \<open>VMap\<close> a non-nil \<^verbatim>\<open>map[string]interface{}\<close> (keys and
  values in some iteration order, a value \<open>None\<close> is nil), \<open>VStruct p n fs\<close> a value of the
  struct type \<open>n\<close> of package \<open>p\<close> with the field values \<open>fs\<close>, \<open>VNamed p n v\<close> a value of
  the defined type \<open>n\<close> of package \<open>p\<close> that is no struct, with the value \<open>v\<close> underneath, and
  \<open>VPtr t p\<close> a pointer of type \<^verbatim>\<open>*t\<close>, nil when \<open>p = None\<close>.
\<close>

datatype gval =
    VBool bool
  | VInt ikind int
  | VFloat64 "64 word"
  | VString string
  | VMap "(string \<times> gval option) list"
  | VStruct string string "gval list"
  | VNamed string string gval
  | VPtr gtype "gval option"

text \<open>\<^verbatim>\<open>reflect.TypeOf(v)\<close> for a non-nil interface value.\<close>

fun typeOf :: "gval \<Rightarrow> gtype" where
  "typeOf (VBool b) = TBool"
| "typeOf (VInt k i) = TInt k"
| "typeOf (VFloat64 b) = TFloat64"
| "typeOf (VString s) = TString"
| "typeOf (VMap kv) = TMap"
| "typeOf (VStruct p n fs) = TNamed p n"
| "typeOf (VNamed p n v) = TNamed p n"
| "typeOf (VPtr t p) = TPtr t"

text \<open>
  \<^verbatim>\<open>reflect.ValueOf(v).IsZero()\<close>: false, 0, the float with all bits zero, the empty string, a
  nil pointer, a struct whose fields are all zero. A non-nil map is never zero, also when it
  is empty.
\<close>

fun IsZero :: "gval \<Rightarrow> bool" where
  "IsZero (VBool b) = (\<not> b)"
| "IsZero (VInt k i) = (i = 0)"
| "IsZero (VFloat64 b) = (b = 0)"
| "IsZero (VString s) = (s = [])"
| "IsZero (VMap kv) = False"
| "IsZero (VStruct p n fs) = list_all IsZero fs"
| "IsZero (VNamed p n v) = IsZero v"
| "IsZero (VPtr t p) = (p = None)"

text \<open>\<^verbatim>\<open>Type.Name()\<close>: the name of a defined or predeclared type, empty for the others.\<close>

fun ikindName :: "ikind \<Rightarrow> string" where
  "ikindName KInt = ''int''"
| "ikindName KInt8 = ''int8''"
| "ikindName KInt16 = ''int16''"
| "ikindName KInt32 = ''int32''"
| "ikindName KInt64 = ''int64''"
| "ikindName KUint = ''uint''"
| "ikindName KUint8 = ''uint8''"
| "ikindName KUint16 = ''uint16''"
| "ikindName KUint32 = ''uint32''"
| "ikindName KUint64 = ''uint64''"

fun typeName :: "gtype \<Rightarrow> string" where
  "typeName TBool = ''bool''"
| "typeName (TInt k) = ikindName k"
| "typeName TFloat64 = ''float64''"
| "typeName TString = ''string''"
| "typeName TMap = []"
| "typeName TIface = []"
| "typeName TError = ''error''"
| "typeName (TNamed p n) = n"
| "typeName (TPtr t) = []"

text \<open>\<^verbatim>\<open>Type.String()\<close>, which \<^verbatim>\<open>%v\<close> prints for a type and \<^verbatim>\<open>%T\<close> for a value.\<close>

fun typeString :: "gtype \<Rightarrow> string" where
  "typeString TBool = ''bool''"
| "typeString (TInt k) = ikindName k"
| "typeString TFloat64 = ''float64''"
| "typeString TString = ''string''"
| "typeString TMap = ''map[string]interface {}''"
| "typeString TIface = ''interface {}''"
| "typeString TError = ''error''"
| "typeString (TNamed p n) = (if p = [] then n else p @ ''.'' @ n)"
| "typeString (TPtr t) = ''*'' @ typeString t"

text \<open>
  A non-nil error: \<^verbatim>\<open>errors.Errorf(format, args...)\<close>, or
  \<^verbatim>\<open>errors.Wrapf(cause, format, args...)\<close> around a non-nil cause. The format is the format
  string of the source, the list its arguments as \<^verbatim>\<open>%s\<close>, \<^verbatim>\<open>%v\<close> and \<^verbatim>\<open>%T\<close> print them.
\<close>

datatype gerror = Errorf string "string list" | Wrap gerror string "string list"

section \<open>The chain of configuration sources\<close>

text \<open>
  \<^verbatim>\<open>ISource\<close>: a name and \<^verbatim>\<open>Get(name, notifier) (value, err)\<close>. \<open>Inl\<close> is a non-nil error,
  \<open>Inr None\<close> is \<^verbatim>\<open>(nil, nil)\<close>: the source does not have the value. What a source does with
  the notifier is its own business and is not part of the chain.
\<close>

record source =
  Name :: string
  Get :: "string \<Rightarrow> gerror + gval option"

text \<open>
  The calls the package makes to code outside itself, in the order it makes them.
  \<open>ForField i ev\<close> is a call that \<^verbatim>\<open>load\<close> makes in the round of its loop for field \<open>i\<close>.
\<close>

datatype event =
    SourceGet string string
  | JsonMarshal gval
  | JsonUnmarshal string gtype
  | Validate gval
  | Create gval
  | ForField nat event
  | StructValidate "gval option list"
  | Destroy nat "gval option"

text \<open>
  What the package uses from \<^verbatim>\<open>encoding/json\<close>, from the types of the program and from the
  errors library: \<open>jsonMarshal\<close> and \<open>jsonUnmarshal\<close> (into a new value of the given type),
  \<open>validator v\<close>, which is \<open>None\<close> when the dynamic type of \<open>v\<close> does not implement
  \<^verbatim>\<open>IValidator\<close> and otherwise \<open>Some\<close> of what \<^verbatim>\<open>v.Validate()\<close> returns, and
  \<open>wrapfNil format args\<close>, what \<^verbatim>\<open>errors.Wrapf(nil, format, args...)\<close> returns.
\<close>

record env =
  jsonMarshal :: "gval \<Rightarrow> gerror + string"
  jsonUnmarshal :: "string \<Rightarrow> gtype \<Rightarrow> gerror + gval"
  validator :: "gval \<Rightarrow> gerror option option"
  wrapfNil :: "string \<Rightarrow> string list \<Rightarrow> gerror option"

text \<open>
  \<^verbatim>\<open>sources.getValue\<close>: the loop over \<^verbatim>\<open>s.list\<close>. The second component lists the sources
  whose \<^verbatim>\<open>Get\<close> was called.
\<close>

fun getValue :: "source list \<Rightarrow> string \<Rightarrow> gval option \<Rightarrow> (gerror + gval option) \<times> event list" where
  "getValue [] name defaultValue = (Inr defaultValue, [])"
| "getValue (s # rest) name defaultValue =
     (case Get s name of
        Inl err \<Rightarrow>
          (Inl (Wrap err ''source(%s).Get(%s) failed'' [Name s, name]), [SourceGet (Name s) name])
      | Inr (Some v) \<Rightarrow> (Inr (Some v), [SourceGet (Name s) name])
      | Inr None \<Rightarrow>
          (case getValue rest name defaultValue of
             (r, evs) \<Rightarrow> (r, SourceGet (Name s) name # evs)))"

text \<open>The type conversion of \<^verbatim>\<open>sources.Get\<close>: the JSON round trip into the default's type.\<close>

definition convert :: "env \<Rightarrow> gval \<Rightarrow> gtype \<Rightarrow> (gerror + gval) \<times> event list" where
  "convert e v t =
     (case jsonMarshal e v of
        Inl err \<Rightarrow> (Inl (Wrap err ''cannot write value as JSON'' []), [JsonMarshal v])
      | Inr jsonValue \<Rightarrow>
          (case jsonUnmarshal e jsonValue t of
             Inl err \<Rightarrow>
               (Inl (Wrap err ''cannot parse JSON value'' []), [JsonMarshal v, JsonUnmarshal jsonValue t])
           | Inr nv \<Rightarrow> (Inr nv, [JsonMarshal v, JsonUnmarshal jsonValue t])))"

text \<open>The call of \<^verbatim>\<open>Validate\<close> in \<^verbatim>\<open>sources.Get\<close>, when the value is an \<^verbatim>\<open>IValidator\<close>.\<close>

definition validateValue :: "env \<Rightarrow> string \<Rightarrow> gval \<Rightarrow> (gerror + gval option) \<times> event list" where
  "validateValue e name v =
     (case validator e v of
        None \<Rightarrow> (Inr (Some v), [])
      | Some None \<Rightarrow> (Inr (Some v), [Validate v])
      | Some (Some err) \<Rightarrow> (Inl (Wrap err ''invalid %s'' [name]), [Validate v]))"

text \<open>
  \<^verbatim>\<open>sources.Get\<close>, which the package's \<^verbatim>\<open>Get\<close> and \<^verbatim>\<open>GetAndWatch\<close> call: the result and the
  calls it made.
\<close>

definition sources_Get :: "env \<Rightarrow> source list \<Rightarrow> string \<Rightarrow> gval option \<Rightarrow> (gerror + gval option) \<times> event list" where
  "sources_Get e list name defaultValue =
     (case getValue list name defaultValue of
        (Inl err, evs) \<Rightarrow> (Inl (Wrap err ''failed to get(%s)'' [name]), evs)
      | (Inr None, evs) \<Rightarrow> (Inr None, evs)
      | (Inr (Some v), evs) \<Rightarrow>
          if IsZero v then (Inr None, evs)
          else
            (case defaultValue of
               None \<Rightarrow> (Inr (Some v), evs)
             | Some dv \<Rightarrow>
                 if typeOf v \<noteq> typeOf dv then
                   (case convert e v (typeOf dv) of
                      (Inl err, cevs) \<Rightarrow> (Inl err, evs @ cevs)
                    | (Inr nv, cevs) \<Rightarrow>
                        (case validateValue e name nv of (r, vevs) \<Rightarrow> (r, evs @ cevs @ vevs)))
                 else
                   (case validateValue e name v of (r, vevs) \<Rightarrow> (r, evs @ vevs))))"

section \<open>The configurable struct and its revisions\<close>

text \<open>
  What \<^verbatim>\<open>reflect\<close> shows of a method: the counts and types of its signature (the receiver is
  input 0). For the constructor \<^verbatim>\<open>Create\<close>, \<open>argZero\<close> is
  \<^verbatim>\<open>reflect.New(constructorMethod.Type.In(1)).Elem().Interface()\<close> and \<open>Call\<close> is the call itself:
  a non-nil error, or the pointer it returns with a nil error: \<open>Some\<close> of the constructed item
  it points to, or \<open>None\<close>, the nil pointer.
\<close>

record cmethod =
  NumIn :: nat
  In1 :: gtype
  NumOut :: nat
  Out0 :: gtype
  Out1 :: gtype
  argZero :: "gval option"
  Call :: "gval \<Rightarrow> gerror + gval option"

record dmethod =
  dNumIn :: nat
  dNumOut :: nat

text \<open>
  A field of the config struct: its name, its type, its \<^verbatim>\<open>json\<close> tag, whether it can be read
  through reflection (\<^verbatim>\<open>CanInterface\<close>), the \<^verbatim>\<open>Create\<close> and \<^verbatim>\<open>Destroy\<close> methods of its type, and
  \<open>dflt\<close>, the field of the default struct value given to \<^verbatim>\<open>Add\<close>, as
  \<^verbatim>\<open>c.defaultStructValue.Field(i).Interface()\<close>.
\<close>

record field =
  fname :: string
  ftype :: gtype
  tag :: string
  exported :: bool
  constructor :: "cmethod option"
  destructor :: "dmethod option"
  dflt :: "gval option"

fun kindPtr :: "gtype \<Rightarrow> bool" where
  "kindPtr (TPtr t) = True"
| "kindPtr t = False"

text \<open>
  \<^verbatim>\<open>configValue\<close>: one revision. \<open>structPtrValue\<close> are the field values of the new struct (\<open>None\<close>
  is the zero value \<^verbatim>\<open>reflect.New\<close> left), \<open>cvType\<close> its struct type, \<open>users\<close> the keys of
  the \<^verbatim>\<open>users\<close> map. \<open>cleanupDone\<close> says that the loop of \<^verbatim>\<open>cleanup()\<close> has ended and the
  fields were destroyed: nothing receives from \<^verbatim>\<open>releaseChan\<close> any more. The revision number is
  a Go \<^verbatim>\<open>int\<close>; it starts at 1 and grows by one with each load, and is taken as an integer
  here. The time stamp and the log id are left out.
\<close>

record configValue =
  cvType :: "field list"
  structPtrValue :: "gval option list"
  revision :: int
  users :: "string set"
  cleanupDone :: bool

text \<open>
  \<^verbatim>\<open>configurable\<close>. The pointer \<^verbatim>\<open>currentValue\<close> is an index into the heap of revisions; a
  release function is the revision and the caller id it sends: \<^verbatim>\<open>cv.releaseChan <- callerID\<close>.
  \<open>structName\<close> is \<^verbatim>\<open>c.structType.Name()\<close>, \<open>structType\<close> the fields of the type, and
  \<open>structValidator\<close> is \<open>None\<close> when the pointer to the struct does not implement
  \<^verbatim>\<open>IValidator\<close>.
\<close>

record configurable =
  structName :: string
  structType :: "field list"
  structValidator :: "(gval option list \<Rightarrow> gerror option) option"
  hasConstructedValues :: bool
  currentValue :: "nat option"
  currentReleaseFunc :: "(nat \<times> string) option"

text \<open>
  The package's variables, and the revisions that were allocated. \<^verbatim>\<open>configurableList\<close> holds what
  \<^verbatim>\<open>Add\<close> appended; nothing in the package reads it.
\<close>

record world =
  allSources :: "source list"
  heap :: "configValue list"
  configurableList :: "configurable list"

text \<open>
  How a call ends: it returns, it panics, or it blocks for ever (a send on a channel nobody
  receives from). A step of a loop goes on with a value or ends the function.
\<close>

datatype 'a outcome = Returns 'a | Panics string | Blocks

datatype 'a step = Continue 'a | Exit "gerror option outcome"

fun stringInList :: "string \<Rightarrow> string list \<Rightarrow> bool" where
  "stringInList s [] = False"
| "stringInList s (ls # list) = (if s = ls then True else stringInList s list)"

text \<open>\<^verbatim>\<open>vf.Set(x)\<close> panics unless the type of \<open>x\<close> is assignable to the field's type.\<close>

definition assignableTo :: "gtype \<Rightarrow> gtype \<Rightarrow> bool" where
  "assignableTo t ft = (t = ft \<or> ft = TIface)"

text \<open>
  \<^verbatim>\<open>logger.GetCaller(0).String()\<close> inside \<^verbatim>\<open>newConfigValue\<close>: the id of the first user of
  every revision, its creator.
\<close>

definition creatorID :: string where
  "creatorID = ''config.newConfigValue''"

text \<open>
  The test of \<^verbatim>\<open>load\<close> that keeps a field as it is in the current revision:
  \<^verbatim>\<open>c.currentValue != nil && len(onlyNames) > 0 && !stringInList(tagName, onlyNames)\<close>.
\<close>

definition kept :: "configValue option \<Rightarrow> string list \<Rightarrow> field \<Rightarrow> bool" where
  "kept cur onlyNames f = (cur \<noteq> None \<and> length onlyNames > 0 \<and> \<not> stringInList (tag f) onlyNames)"

text \<open>
  The body of the loop of \<^verbatim>\<open>configurable.load\<close> for field \<open>i\<close>; \<open>cur\<close> is
  \<^verbatim>\<open>c.currentValue\<close> and \<open>sname\<close> is \<^verbatim>\<open>c.structType.Name()\<close>. It gives the value of the field in
  the new struct. Where the source returns \<^verbatim>\<open>errors.Wrapf(err, ...)\<close> with an \<^verbatim>\<open>err\<close> that is nil
  at that line, the result is \<open>wrapfNil\<close> of the errors library.
\<close>

definition loadField ::
  "env \<Rightarrow> source list \<Rightarrow> configValue option \<Rightarrow> string list \<Rightarrow> string \<Rightarrow> nat \<Rightarrow> field
   \<Rightarrow> gval option step \<times> event list" where
  "loadField e srcs cur onlyNames sname i f =
     (if kept cur onlyNames f then
        (Continue (structPtrValue (the cur) ! i), [])
      else
        (case constructor f of
           None \<Rightarrow>
             (case sources_Get e srcs (tag f) (dflt f) of
                (Inl err, evs) \<Rightarrow>
                  (Exit (Returns (Some (Wrap err ''%s.%s: cannot get config %s'' [sname, fname f, tag f]))), evs)
              | (Inr None, evs) \<Rightarrow>
                  if \<not> kindPtr (ftype f) then
                    (Exit (Returns (wrapfNil e ''%s.%s: missing config %s'' [sname, fname f, tag f])), evs)
                  else (Continue None, evs)
              | (Inr (Some v), evs) \<Rightarrow>
                  if assignableTo (typeOf v) (ftype f) then (Continue (Some v), evs)
                  else (Exit (Panics ''reflect.Set: value is not assignable to the field''), evs))
         | Some m \<Rightarrow>
             (case sources_Get e srcs (tag f) (argZero m) of
                (Inl err, evs) \<Rightarrow> (Exit (Returns (Some (Wrap err ''config error on %s'' [tag f]))), evs)
              | (Inr None, evs) \<Rightarrow>
                  if \<not> kindPtr (ftype f) then
                    (Exit (Returns (Some (Errorf ''config required for %s'' [tag f]))), evs)
                  else (Continue None, evs)
              | (Inr (Some v), evs) \<Rightarrow>
                  if \<not> assignableTo (typeOf v) (In1 m) then
                    (Exit (Panics ''reflect: Call using a value of the wrong type''), evs)
                  else
                    (case Call m v of
                       Inl err \<Rightarrow>
                         (Exit (Returns (Some (Wrap err ''%s.%s: %s.%s() failed''
                                                 [sname, fname f, typeName (ftype f), ''Create'']))),
                          evs @ [Create v])
                     | Inr item \<Rightarrow>
                         (case ftype f of
                            TPtr et \<Rightarrow>
                              if assignableTo (Out0 m) (ftype f) then
                                (Continue (Some (VPtr et item)), evs @ [Create v])
                              else
                                (Exit (Returns (Some (Errorf ''%s.%s: %s.%s() returns incompatible type %v''
                                   [sname, fname f, typeName et, ''Create'', typeName (Out0 m)]))),
                                 evs @ [Create v])
                          | _ \<Rightarrow>
                              (case Out0 m of
                                 TPtr t \<Rightarrow>
                                   if assignableTo t (ftype f) then
                                     (case item of
                                        Some x \<Rightarrow> (Continue (Some x), evs @ [Create v])
                                      | None \<Rightarrow>
                                          (Exit (Panics ''reflect: Set of the element of a nil pointer''),
                                           evs @ [Create v]))
                                   else
                                     (Exit (Returns (Some (Errorf ''%s.%s: %s.%s() returns incompatible type %v''
                                        [sname, fname f, typeName (ftype f), ''Create'', typeName (Out0 m)]))),
                                      evs @ [Create v])
                               | TMap \<Rightarrow>
                                   if assignableTo TIface (ftype f) then
                                     (Exit (Panics ''reflect: Elem of a map value''), evs @ [Create v])
                                   else
                                     (Exit (Returns (Some (Errorf ''%s.%s: %s.%s() returns incompatible type %v''
                                        [sname, fname f, typeName (ftype f), ''Create'', typeName (Out0 m)]))),
                                      evs @ [Create v])
                               | _ \<Rightarrow>
                                   (Exit (Panics ''reflect: Elem of a type that is no pointer''),
                                    evs @ [Create v])))))))"

text \<open>The loop over the fields, from field \<open>i\<close> on.\<close>

fun loadFields ::
  "env \<Rightarrow> source list \<Rightarrow> configValue option \<Rightarrow> string list \<Rightarrow> string \<Rightarrow> nat \<Rightarrow> field list
   \<Rightarrow> gval option list step \<times> event list" where
  "loadFields e srcs cur onlyNames sname i [] = (Continue [], [])"
| "loadFields e srcs cur onlyNames sname i (f # fs) =
     (case loadField e srcs cur onlyNames sname i f of
        (Exit r, evs) \<Rightarrow> (Exit r, map (ForField i) evs)
      | (Continue x, evs) \<Rightarrow>
          (case loadFields e srcs cur onlyNames sname (Suc i) fs of
             (Exit r, evs') \<Rightarrow> (Exit r, map (ForField i) evs @ evs')
           | (Continue xs, evs') \<Rightarrow> (Continue (x # xs), map (ForField i) evs @ evs')))"

text \<open>
  The destruction at the end of \<^verbatim>\<open>cleanup()\<close>: \<^verbatim>\<open>Destroy\<close> of every field whose type has it,
  from field \<open>i\<close> on.
\<close>

fun destroyFields :: "nat \<Rightarrow> field list \<Rightarrow> gval option list \<Rightarrow> event list" where
  "destroyFields i (f # fs) (x # xs) =
     (if destructor f \<noteq> None then Destroy i x # destroyFields (Suc i) fs xs
      else destroyFields (Suc i) fs xs)"
| "destroyFields i fs xs = []"

text \<open>
  One round of the loop of \<^verbatim>\<open>cleanup()\<close>, which runs in the revision's own goroutine:
  it receives \<open>callerID\<close> from \<^verbatim>\<open>releaseChan\<close> and deletes it from \<^verbatim>\<open>users\<close>; when no user is
  left the loop ends and the fields are destroyed. \<open>None\<close>: the loop has ended before, and
  the send blocks for ever.
\<close>

definition receiveRelease :: "configValue \<Rightarrow> string \<Rightarrow> (configValue \<times> event list) option" where
  "receiveRelease cv callerID =
     (if cleanupDone cv then None
      else
        (let us = users cv - {callerID} in
         if us = {} then
           Some (cv\<lparr>users := us, cleanupDone := True\<rparr>, destroyFields 0 (cvType cv) (structPtrValue cv))
         else Some (cv\<lparr>users := us\<rparr>, [])))"

text \<open>Calling a release function: \<^verbatim>\<open>cv.releaseChan <- callerID\<close>.\<close>

definition release :: "configValue list \<Rightarrow> nat \<times> string \<Rightarrow> (configValue list \<times> event list) outcome" where
  "release h rel =
     (case rel of (a, callerID) \<Rightarrow>
        (case receiveRelease (h ! a) callerID of
           None \<Rightarrow> Blocks
         | Some (cv, evs) \<Rightarrow> Returns (h[a := cv], evs)))"

text \<open>\<^verbatim>\<open>configValue.use\<close>: the struct value and the release function of this user.\<close>

definition use :: "configValue list \<Rightarrow> nat \<Rightarrow> string \<Rightarrow> (gval option list \<times> (nat \<times> string)) \<times> configValue list" where
  "use h a callerID =
     ((structPtrValue (h ! a), (a, callerID)),
      h[a := (h ! a)\<lparr>users := insert callerID (users (h ! a))\<rparr>])"

text \<open>
  \<^verbatim>\<open>newConfigValue\<close>: the new revision, with its creator as first user, and the creator's
  release function. The goroutine that runs \<^verbatim>\<open>cleanup()\<close> starts here.
\<close>

definition newConfigValue ::
  "configValue list \<Rightarrow> int \<Rightarrow> field list \<Rightarrow> gval option list \<Rightarrow> (nat \<times> (nat \<times> string)) \<times> configValue list" where
  "newConfigValue h rvn t xs =
     (let cv = \<lparr>cvType = t, structPtrValue = xs, revision = rvn, users = {}, cleanupDone = False\<rparr>;
          a = length h
      in case use (h @ [cv]) a creatorID of ((sv, rel), h') \<Rightarrow> ((a, rel), h'))"

text \<open>\<^verbatim>\<open>configurable.load\<close>: the result, the configurable and the world after it, and the calls.\<close>

definition load ::
  "env \<Rightarrow> world \<Rightarrow> configurable \<Rightarrow> string list
   \<Rightarrow> gerror option outcome \<times> configurable \<times> world \<times> event list" where
  "load e w c onlyNames =
     (case loadFields e (allSources w)
             (case currentValue c of None \<Rightarrow> None | Some a \<Rightarrow> Some (heap w ! a))
             onlyNames (structName c) 0 (structType c) of
        (Exit r, evs) \<Rightarrow> (r, c, w, evs)
      | (Continue xs, evs) \<Rightarrow>
          (case (case structValidator c of None \<Rightarrow> (None, []) | Some v \<Rightarrow> (v xs, [StructValidate xs])) of
             (Some err, vevs) \<Rightarrow> (Returns (Some (Wrap err ''invalid config'' [])), c, w, evs @ vevs)
           | (None, vevs) \<Rightarrow>
               (case currentReleaseFunc c of
                  None \<Rightarrow>
                    (case newConfigValue (heap w) 1 (structType c) xs of
                       ((a, rel), h) \<Rightarrow>
                         (Returns None, c\<lparr>currentValue := Some a, currentReleaseFunc := Some rel\<rparr>,
                          w\<lparr>heap := h\<rparr>, evs @ vevs))
                | Some oldRel \<Rightarrow>
                    (case currentValue c of
                       None \<Rightarrow> (Panics ''nil pointer dereference'', c, w, evs @ vevs)
                     | Some old \<Rightarrow>
                         (case release (heap w) oldRel of
                            Blocks \<Rightarrow> (Blocks, c, w, evs @ vevs)
                          | Panics msg \<Rightarrow> (Panics msg, c, w, evs @ vevs)
                          | Returns (h1, revs) \<Rightarrow>
                              (case newConfigValue h1 (revision (heap w ! old) + 1) (structType c) xs of
                                 ((a, rel), h) \<Rightarrow>
                                   (Returns None, c\<lparr>currentValue := Some a, currentReleaseFunc := Some rel\<rparr>,
                                    w\<lparr>heap := h\<rparr>, evs @ vevs @ revs)))))))"

text \<open>\<^verbatim>\<open>configurable.Notify\<close>: the reload of one name; an error is logged only.\<close>

definition Notify ::
  "env \<Rightarrow> world \<Rightarrow> configurable \<Rightarrow> string \<Rightarrow> unit outcome \<times> configurable \<times> world \<times> event list" where
  "Notify e w c name =
     (case load e w c [name] of
        (Returns r, c', w', evs) \<Rightarrow> (Returns (), c', w', evs)
      | (Panics msg, c', w', evs) \<Rightarrow> (Panics msg, c', w', evs)
      | (Blocks, c', w', evs) \<Rightarrow> (Blocks, c', w', evs))"

text \<open>\<^verbatim>\<open>configurable.Use\<close>, with the id of its caller, \<^verbatim>\<open>logger.GetCaller(1).String()\<close>.\<close>

definition Use ::
  "world \<Rightarrow> configurable \<Rightarrow> string \<Rightarrow> (gval option list \<times> (nat \<times> string)) outcome \<times> world" where
  "Use w c callerID =
     (case currentValue c of
        None \<Rightarrow> (Panics ''nil pointer dereference'', w)
      | Some a \<Rightarrow> (case use (heap w) a callerID of (r, h) \<Rightarrow> (Returns r, w\<lparr>heap := h\<rparr>)))"

text \<open>\<^verbatim>\<open>configurable.Current\<close>.\<close>

definition Current :: "world \<Rightarrow> configurable \<Rightarrow> gval option list outcome" where
  "Current w c =
     (if hasConstructedValues c then Panics ''%T.Current() must be replaced with %T.Use()''
      else
        (case currentValue c of
           None \<Rightarrow> Panics ''nil pointer dereference''
         | Some a \<Rightarrow> Returns (structPtrValue (heap w ! a))))"

text \<open>
  What \<^verbatim>\<open>Add\<close> is given: a struct value (the package and the name of its type, its fields with
  their defaults, and its \<^verbatim>\<open>Validate\<close> when the pointer to it implements \<^verbatim>\<open>IValidator\<close>) or a
  value of another kind; \<open>None\<close> is \<^verbatim>\<open>Add(nil)\<close>.
\<close>

datatype template =
    Struct string string "field list" "(gval option list \<Rightarrow> gerror option) option"
  | Other gval

fun templName :: "template \<Rightarrow> string" where
  "templName (Struct p tn fs sv) = tn"
| "templName (Other v) = typeName (typeOf v)"

fun templString :: "template \<Rightarrow> string" where
  "templString (Struct p tn fs sv) = typeString (TNamed p tn)"
| "templString (Other v) = typeString (typeOf v)"

fun templFields :: "template \<Rightarrow> field list" where
  "templFields (Struct p tn fs sv) = fs"
| "templFields (Other v) = []"

fun templValidator :: "template \<Rightarrow> (gval option list \<Rightarrow> gerror option) option" where
  "templValidator (Struct p tn fs sv) = sv"
| "templValidator (Other v) = None"

text \<open>The checks of \<^verbatim>\<open>validateConfigStructType\<close> on one field; \<open>True\<close> when it has a constructor.\<close>

definition validateField :: "string \<Rightarrow> field \<Rightarrow> gerror + bool" where
  "validateField tn f =
     (let valType = (case ftype f of TPtr t \<Rightarrow> t | t \<Rightarrow> t) in
      if kindPtr valType then
        Inl (Errorf ''%s.%s type may not be double pointer %v'' [tn, fname f, typeName (ftype f)])
      else if tag f = [] then Inl (Errorf ''%s.%s has no json tag'' [tn, fname f])
      else if \<not> exported f then Inl (Errorf ''%s.%s is private'' [tn, fname f])
      else
        (case (case constructor f of
                 None \<Rightarrow> None
               | Some m \<Rightarrow>
                   if NumIn m \<noteq> 2 then
                     Some (Errorf ''%s.%s: %s.%s() must take 1 argument for configurable value''
                             [tn, fname f, typeName (ftype f), ''Create''])
                   else if kindPtr (In1 m) then
                     Some (Errorf ''%s.%s: %s.%s() may not take pointer argument''
                             [tn, fname f, typeName (ftype f), ''Create''])
                   else if NumOut m \<noteq> 2 then
                     Some (Errorf ''%s.%s: %s.%s() does not return (%s,error)''
                             [tn, fname f, typeName (ftype f), ''Create'', typeName (ftype f)])
                   else if Out0 m \<noteq> TPtr valType then
                     Some (Errorf ''%s.%s: %s.%s() returns (%v,%s) instead of (*%v,error)''
                             [tn, fname f, typeString (ftype f), ''Create'', typeName (Out0 m),
                              typeName (Out1 m), typeString (ftype f)])
                   else if Out1 m \<noteq> TError then
                     Some (Errorf ''%s.%s: %s.%s() does not return (%s,error)''
                             [tn, fname f, typeName (ftype f), ''Create'', typeName (ftype f)])
                   else None) of
           Some err \<Rightarrow> Inl err
         | None \<Rightarrow>
             (case destructor f of
                None \<Rightarrow> Inr (constructor f \<noteq> None)
              | Some d \<Rightarrow>
                  if dNumIn d \<noteq> 1 then
                    Inl (Errorf ''%s.%s: %s.%s() must take no arguments''
                           [tn, fname f, typeName (ftype f), ''Destroy''])
                  else if dNumOut d \<noteq> 0 then
                    Inl (Errorf ''%s.%s: %s.%s() should not return any values''
                           [tn, fname f, typeName (ftype f), ''Destroy''])
                  else Inr (constructor f \<noteq> None))))"

fun validateFields :: "string \<Rightarrow> field list \<Rightarrow> bool \<Rightarrow> gerror + bool" where
  "validateFields tn [] hasConstructed = Inr hasConstructed"
| "validateFields tn (f # fs) hasConstructed =
     (case validateField tn f of
        Inl err \<Rightarrow> Inl err
      | Inr b \<Rightarrow> validateFields tn fs (hasConstructed \<or> b))"

definition validateConfigStructType :: "template \<Rightarrow> gerror + bool" where
  "validateConfigStructType t =
     (case t of
        Other v \<Rightarrow> Inl (Errorf ''%s is not a struct'' [templName t])
      | Struct p tn fs sv \<Rightarrow>
          if length fs = 0 then Inl (Errorf ''%s has no configurable fields'' [tn])
          else validateFields tn fs False)"

text \<open>\<^verbatim>\<open>Add\<close>: the configurable or an error, the world after it, and the calls.\<close>

definition Add ::
  "env \<Rightarrow> world \<Rightarrow> template option \<Rightarrow> (gerror + configurable) outcome \<times> world \<times> event list" where
  "Add e w defaultStructValue =
     (case defaultStructValue of
        None \<Rightarrow> (Returns (Inl (Errorf ''Add(nil)'' [])), w, [])
      | Some t \<Rightarrow>
          (case validateConfigStructType t of
             Inl err \<Rightarrow> (Returns (Inl (Wrap err ''cannot use %T as config struct'' [templString t])), w, [])
           | Inr hasConstructed \<Rightarrow>
               (case load e w
                       \<lparr>structName = templName t, structType = templFields t,
                        structValidator = templValidator t,
                        hasConstructedValues = hasConstructed,
                        currentValue = None, currentReleaseFunc = None\<rparr> [] of
                  (Returns (Some err), c, w', evs) \<Rightarrow>
                    (Returns (Inl (Wrap err ''failed on init load'' [])), w', evs)
                | (Returns None, c, w', evs) \<Rightarrow>
                    (Returns (Inr c), w'\<lparr>configurableList := configurableList w' @ [c]\<rparr>, evs)
                | (Panics msg, c, w', evs) \<Rightarrow> (Panics msg, w', evs)
                | (Blocks, c, w', evs) \<Rightarrow> (Blocks, w', evs))))"

text \<open>
  A configurable and the world fit when the pointers of the configurable are as \<^verbatim>\<open>load\<close>
  leaves them: no revision and no release function, or a revision of the heap whose cleanup
  loop runs, that has the creator among its users and the struct type of the configurable,
  with the creator's release function.
\<close>

definition wfBinder :: "world \<Rightarrow> configurable \<Rightarrow> bool" where
  "wfBinder w c =
     (case currentValue c of
        None \<Rightarrow> currentReleaseFunc c = None
      | Some a \<Rightarrow>
          a < length (heap w) \<and> currentReleaseFunc c = Some (a, creatorID)
          \<and> creatorID \<in> users (heap w ! a) \<and> \<not> cleanupDone (heap w ! a)
          \<and> cvType (heap w ! a) = structType c
          \<and> length (structPtrValue (heap w ! a)) = length (structType c))"

fun isDestroy :: "event \<Rightarrow> bool" where
  "isDestroy (Destroy i x) = True"
| "isDestroy ev = False"

fun isForField :: "event \<Rightarrow> bool" where
  "isForField (ForField i x) = True"
| "isForField ev = False"

section \<open>The in-memory source and small programs\<close>

text \<open>
  \<^verbatim>\<open>mem.New().With(name, value)...\<close>: the source of the package's tests. Its \<^verbatim>\<open>Get\<close> returns
  \<^verbatim>\<open>s.byName[name]\<close>, or \<^verbatim>\<open>(nil, nil)\<close> when the name is not set.
\<close>

definition memSource :: "(string \<times> gval) list \<Rightarrow> source" where
  "memSource byName = \<lparr>Name = ''inMemory'', Get = (\<lambda>name. Inr (map_of byName name))\<rparr>"

text \<open>A source that cannot be reached.\<close>

definition failingSource :: source where
  "failingSource = \<lparr>Name = ''broken'', Get = (\<lambda>name. Inl (Errorf ''cannot connect'' []))\<rparr>"

text \<open>
  Two programs. In \<open>plainEnv\<close> no type has \<^verbatim>\<open>Validate\<close> and \<^verbatim>\<open>errors.Wrapf(nil, ...)\<close> is nil;
  in \<open>strictEnv\<close> every type has \<^verbatim>\<open>Validate\<close>, which fails, and \<^verbatim>\<open>errors.Wrapf(nil, ...)\<close> is
  an error. In both, the JSON of a string is the string itself and it is parsed into
  \<^verbatim>\<open>string\<close> and into the defined type \<^verbatim>\<open>main.Port\<close> over \<^verbatim>\<open>string\<close> only.
\<close>

definition toyMarshal :: "gval \<Rightarrow> gerror + string" where
  "toyMarshal v = (case v of VString s \<Rightarrow> Inr s | _ \<Rightarrow> Inl (Errorf ''json: unsupported value'' []))"

definition toyUnmarshal :: "string \<Rightarrow> gtype \<Rightarrow> gerror + gval" where
  "toyUnmarshal j t =
     (if t = TString then Inr (VString j)
      else if t = TNamed ''main'' ''Port'' then Inr (VNamed ''main'' ''Port'' (VString j))
      else Inl (Errorf ''json: cannot unmarshal'' []))"

definition plainEnv :: env where
  "plainEnv =
     \<lparr>jsonMarshal = toyMarshal, jsonUnmarshal = toyUnmarshal,
      validator = (\<lambda>v. None), wrapfNil = (\<lambda>format args. None)\<rparr>"

definition strictEnv :: env where
  "strictEnv =
     \<lparr>jsonMarshal = toyMarshal, jsonUnmarshal = toyUnmarshal,
      validator = (\<lambda>v. Some (Some (Errorf ''invalid'' []))),
      wrapfNil = (\<lambda>format args. Some (Errorf format args))\<rparr>"


text \<open>
  The program of \<^verbatim>\<open>examples/example1\<close>: the struct \<^verbatim>\<open>myConfigStruct\<close> with the plain field
  \<^verbatim>\<open>Name\<close> and the constructed field \<^verbatim>\<open>Server\<close>, whose \<^verbatim>\<open>Create\<close> takes a \<^verbatim>\<open>serverConfig\<close>
  and whose \<^verbatim>\<open>Validate\<close> wants a name. In \<open>exampleEnv\<close> the JSON of the map
  \<^verbatim>\<open>{"addr": a}\<close> is \<open>a\<close>, and it is parsed into \<^verbatim>\<open>serverConfig{Addr: a}\<close>; no value has
  \<^verbatim>\<open>Validate\<close>, and \<^verbatim>\<open>errors.Wrapf(nil, ...)\<close> is an error.
\<close>

definition exampleEnv :: env where
  "exampleEnv =
     \<lparr>jsonMarshal = (\<lambda>v. case v of VMap [(k, Some (VString a))] \<Rightarrow> Inr a
                              | _ \<Rightarrow> Inl (Errorf ''json: unsupported value'' [])),
      jsonUnmarshal = (\<lambda>j t. if t = TNamed ''main'' ''serverConfig''
                              then Inr (VStruct ''main'' ''serverConfig'' [VString j])
                              else Inl (Errorf ''json: cannot unmarshal'' [])),
      validator = (\<lambda>v. None),
      wrapfNil = (\<lambda>format args. Some (Errorf format args))\<rparr>"

definition nameField :: field where
  "nameField =
     \<lparr>fname = ''Name'', ftype = TString, tag = ''name'', exported = True,
      constructor = None, destructor = None, dflt = Some (VString [])\<rparr>"

definition serverCreate :: cmethod where
  "serverCreate =
     \<lparr>NumIn = 2, In1 = TNamed ''main'' ''serverConfig'', NumOut = 2,
      Out0 = TPtr (TNamed ''main'' ''Server''), Out1 = TError,
      argZero = Some (VStruct ''main'' ''serverConfig'' [VString []]),
      Call = (\<lambda>cfg. Inr (Some (VStruct ''main'' ''Server'' [cfg])))\<rparr>"

definition serverField :: field where
  "serverField =
     \<lparr>fname = ''Server'', ftype = TNamed ''main'' ''Server'', tag = ''server'', exported = True,
      constructor = Some serverCreate, destructor = Some \<lparr>dNumIn = 1, dNumOut = 0\<rparr>,
      dflt = Some (VStruct ''main'' ''Server'' [VStruct ''main'' ''serverConfig'' [VString []]])\<rparr>"

fun myConfigValidate :: "gval option list \<Rightarrow> gerror option" where
  "myConfigValidate (Some (VString n) # xs) = (if n = [] then Some (Errorf ''missing name'' []) else None)"
| "myConfigValidate xs = Some (Errorf ''missing name'' [])"

definition myConfigStruct :: template where
  "myConfigStruct = Struct ''main'' ''myConfigStruct'' [nameField, serverField] (Some myConfigValidate)"

text \<open>
  \<^verbatim>\<open>staticConfig\<close> of the example, with the server address \<open>addr\<close>; the world before \<^verbatim>\<open>Add\<close>;
  and the configurable and the world after \<^verbatim>\<open>Add\<close>, with revision 1.
\<close>

definition staticConfig :: "string \<Rightarrow> source" where
  "staticConfig addr =
     memSource [(''name'', VString ''Test123''), (''server'', VMap [(''addr'', Some (VString addr))])]"

definition world0 :: "source list \<Rightarrow> world" where
  "world0 srcs = \<lparr>allSources = srcs, heap = [], configurableList = []\<rparr>"

definition serverAt :: "string \<Rightarrow> gval" where
  "serverAt addr = VStruct ''main'' ''Server'' [VStruct ''main'' ''serverConfig'' [VString addr]]"

definition binder0 :: configurable where
  "binder0 =
     \<lparr>structName = ''myConfigStruct'', structType = [nameField, serverField],
      structValidator = Some myConfigValidate, hasConstructedValues = True,
      currentValue = None, currentReleaseFunc = None\<rparr>"

definition binder1 :: configurable where
  "binder1 = binder0\<lparr>currentValue := Some 0, currentReleaseFunc := Some (0, creatorID)\<rparr>"

definition revision1 :: "string set \<Rightarrow> configValue" where
  "revision1 us =
     \<lparr>cvType = [nameField, serverField],
      structPtrValue = [Some (VString ''Test123''), Some (serverAt ''localhost:5555'')],
      revision = 1, users = us, cleanupDone = False\<rparr>"

definition world1 :: "source list \<Rightarrow> string set \<Rightarrow> world" where
  "world1 srcs us = \<lparr>allSources = srcs, heap = [revision1 us], configurableList = [binder1]\<rparr>"

section \<open>Properties of the chain\<close>












text \<open>
  Claim C9 at the input where the code breaks it. The source defines the empty string for
  \<^verbatim>\<open>name\<close> and the default is \<^verbatim>\<open>"d"\<close>: \<^verbatim>\<open>sources.Get\<close> returns \<^verbatim>\<open>(nil, nil)\<close>, at the line it comments
  as "not configured and default is nil". With a source that defines nothing, it returns the
  default. So the zero value of the source is told from no value at all.
\<close>

theorem zero_value_hides_default:
  "Get (memSource [(''name'', VString [])]) ''name'' = Inr (Some (VString []))
   \<and> IsZero (VString [])
   \<and> Get (memSource []) ''name'' = Inr None
   \<and> sources_Get plainEnv [memSource [(''name'', VString [])]] ''name'' (Some (VString ''d''))
       = (Inr None, [SourceGet ''inMemory'' ''name''])
   \<and> sources_Get plainEnv [memSource []] ''name'' (Some (VString ''d''))
       = (Inr (Some (VString ''d'')), [SourceGet ''inMemory'' ''name''])"
  by (simp add: memSource_def sources_Get_def validateValue_def plainEnv_def)




section \<open>Properties of the configurable struct\<close>

lemma loadFields_length:
  "loadFields e srcs cur only sn i fs = (Continue xs, evs) \<Longrightarrow> length xs = length fs"
  by (induction fs arbitrary: i xs evs) (auto split: prod.splits step.splits)

lemma loadField_kept:
  "kept cur only f \<Longrightarrow> loadField e srcs cur only sn i f = (Continue (structPtrValue (the cur) ! i), [])"
  by (simp add: loadField_def)

lemma loadFields_kept:
  "loadFields e srcs cur only sn i fs = (Continue xs, evs) \<Longrightarrow>
   j < length fs \<Longrightarrow> kept cur only (fs ! j) \<Longrightarrow> xs ! j = structPtrValue (the cur) ! (i + j)"
proof (induction fs arbitrary: i xs evs j)
  case Nil then show ?case by simp
next
  case (Cons f fs)
  then show ?case
    by (cases j) (auto simp: loadField_kept split: prod.splits step.splits)
qed

lemma loadFields_events:
  "loadFields e srcs cur only sn i fs = (r, evs) \<Longrightarrow> x \<in> set evs \<Longrightarrow>
   \<exists>j ev. x = ForField j ev \<and> i \<le> j \<and> j < i + length fs \<and> \<not> kept cur only (fs ! (j - i))"
proof (induction fs arbitrary: i r evs)
  case Nil then show ?case by simp
next
  case (Cons f fs)
  obtain r0 evs0 where f0: "loadField e srcs cur only sn i f = (r0, evs0)"
    by (cases "loadField e srcs cur only sn i f")
  obtain r1 evs1 where f1: "loadFields e srcs cur only sn (Suc i) fs = (r1, evs1)"
    by (cases "loadFields e srcs cur only sn (Suc i) fs")
  have sub: "set evs \<subseteq> ForField i ` set evs0 \<union> set evs1"
    using Cons.prems(1) f0 f1 by (auto split: step.splits)
  from Cons.prems(2) sub consider (here) "x \<in> ForField i ` set evs0" | (later) "x \<in> set evs1" by blast
  then show ?case
  proof cases
    case here
    then have ne: "evs0 \<noteq> []" by auto
    have "\<not> kept cur only f" using ne f0 loadField_kept [of cur only f e srcs sn i] by auto
    with here show ?thesis by auto
  next
    case later
    from Cons.IH [OF f1 later] obtain j ev where
      j: "x = ForField j ev" "Suc i \<le> j" "j < Suc i + length fs" "\<not> kept cur only (fs ! (j - Suc i))" by blast
    then have "j - i = Suc (j - Suc i)" by arith
    then have "(f # fs) ! (j - i) = fs ! (j - Suc i)" by simp
    with j show ?thesis by auto
  qed
qed

lemma newConfigValue_eq:
  "newConfigValue h rv t xs =
     ((length h, (length h, creatorID)),
      h @ [\<lparr>cvType = t, structPtrValue = xs, revision = rv, users = {creatorID}, cleanupDone = False\<rparr>])"
  by (simp add: newConfigValue_def use_def Let_def)

lemma release_eq:
  "release h (a, u) =
     (if cleanupDone (h ! a) then Blocks
      else if users (h ! a) - {u} = {} then
        Returns (h[a := (h ! a)\<lparr>users := users (h ! a) - {u}, cleanupDone := True\<rparr>],
                 destroyFields 0 (cvType (h ! a)) (structPtrValue (h ! a)))
      else Returns (h[a := (h ! a)\<lparr>users := users (h ! a) - {u}\<rparr>], []))"
  by (simp add: release_def receiveRelease_def Let_def)

lemma release_length: "release h rel = Returns (h1, revs) \<Longrightarrow> length h1 = length h"
  by (cases rel) (auto simp: release_eq split: if_splits)

lemma destroyFields_events: "x \<in> set (destroyFields i fs xs) \<Longrightarrow> isDestroy x"
  by (induction i fs xs rule: destroyFields.induct) (auto split: if_splits)

lemma release_events: "release h rel = Returns (h1, revs) \<Longrightarrow> x \<in> set revs \<Longrightarrow> isDestroy x"
  by (cases rel) (auto simp: release_eq destroyFields_events split: if_splits)

lemma isDestroy_not_ForField: "isDestroy x \<Longrightarrow> \<not> isForField x"
  by (cases x) simp_all

text \<open>
  What \<^verbatim>\<open>load\<close> does, by the place where it returns: in the loop, at the validation of the
  struct, at a release function that blocks, or at its end.
\<close>

lemma load_cases:
  assumes ld: "load e w c only = (out, c', w', evs)"
  obtains
    (exit) r where
      "loadFields e (allSources w) (case currentValue c of None \<Rightarrow> None | Some a \<Rightarrow> Some (heap w ! a))
         only (structName c) 0 (structType c) = (Exit r, evs)"
      "out = r" "c' = c" "w' = w"
  | (invalid) xs fevs v err where
      "loadFields e (allSources w) (case currentValue c of None \<Rightarrow> None | Some a \<Rightarrow> Some (heap w ! a))
         only (structName c) 0 (structType c) = (Continue xs, fevs)"
      "structValidator c = Some v" "v xs = Some err"
      "out = Returns (Some (Wrap err ''invalid config'' []))" "c' = c" "w' = w"
      "evs = fevs @ [StructValidate xs]"
  | (stuck) xs fevs vevs where
      "loadFields e (allSources w) (case currentValue c of None \<Rightarrow> None | Some a \<Rightarrow> Some (heap w ! a))
         only (structName c) 0 (structType c) = (Continue xs, fevs)"
      "out \<noteq> Returns None" "c' = c" "w' = w" "evs = fevs @ vevs" "\<forall>x \<in> set vevs. \<not> isForField x \<and> \<not> isDestroy x"
      "currentReleaseFunc c \<noteq> None"
  | (first) xs fevs vevs where
      "loadFields e (allSources w) (case currentValue c of None \<Rightarrow> None | Some a \<Rightarrow> Some (heap w ! a))
         only (structName c) 0 (structType c) = (Continue xs, fevs)"
      "currentReleaseFunc c = None" "out = Returns None"
      "c' = c\<lparr>currentValue := Some (length (heap w)), currentReleaseFunc := Some (length (heap w), creatorID)\<rparr>"
      "w' = w\<lparr>heap := heap w @ [\<lparr>cvType = structType c, structPtrValue = xs, revision = 1,
                                  users = {creatorID}, cleanupDone = False\<rparr>]\<rparr>"
      "evs = fevs @ vevs" "\<forall>x \<in> set vevs. \<not> isForField x \<and> \<not> isDestroy x"
  | (again) xs fevs vevs rel old h1 revs where
      "loadFields e (allSources w) (case currentValue c of None \<Rightarrow> None | Some a \<Rightarrow> Some (heap w ! a))
         only (structName c) 0 (structType c) = (Continue xs, fevs)"
      "currentReleaseFunc c = Some rel" "currentValue c = Some old"
      "release (heap w) rel = Returns (h1, revs)" "out = Returns None"
      "c' = c\<lparr>currentValue := Some (length (heap w)), currentReleaseFunc := Some (length (heap w), creatorID)\<rparr>"
      "w' = w\<lparr>heap := h1 @ [\<lparr>cvType = structType c, structPtrValue = xs,
                               revision = revision (heap w ! old) + 1,
                               users = {creatorID}, cleanupDone = False\<rparr>]\<rparr>"
      "evs = fevs @ vevs @ revs" "\<forall>x \<in> set vevs. \<not> isForField x \<and> \<not> isDestroy x"
proof -
  let ?cur = "case currentValue c of None \<Rightarrow> None | Some a \<Rightarrow> Some (heap w ! a)"
  obtain r fevs where lf: "loadFields e (allSources w) ?cur only (structName c) 0 (structType c) = (r, fevs)"
    by (cases "loadFields e (allSources w) ?cur only (structName c) 0 (structType c)")
  show ?thesis
  proof (cases r)
    case (Exit x)
    with lf ld have "out = x" "c' = c" "w' = w" "evs = fevs" by (simp_all add: load_def)
    with lf Exit show ?thesis using exit by simp
  next
    case (Continue xs)
    note lf' = lf [unfolded Continue]
    obtain verr vevs where sv:
      "(case structValidator c of None \<Rightarrow> (None, []) | Some v \<Rightarrow> (v xs, [StructValidate xs])) = (verr, vevs)"
      by (cases "(case structValidator c of None \<Rightarrow> (None, []) | Some v \<Rightarrow> (v xs, [StructValidate xs]))")
    then have vev: "\<forall>x \<in> set vevs. \<not> isForField x \<and> \<not> isDestroy x" by (auto split: option.splits)
    show ?thesis
    proof (cases verr)
      case (Some err)
      with sv obtain v where v: "structValidator c = Some v" "v xs = Some err" "vevs = [StructValidate xs]"
        by (auto split: option.splits)
      from lf' sv Some ld have "out = Returns (Some (Wrap err ''invalid config'' []))" "c' = c" "w' = w"
        "evs = fevs @ vevs" by (simp_all add: load_def)
      with lf' v show ?thesis using invalid by simp
    next
      case None
      note sv' = sv [unfolded None]
      show ?thesis
      proof (cases "currentReleaseFunc c")
        case None
        with lf' sv' ld have "out = Returns None"
          and "c' = c\<lparr>currentValue := Some (length (heap w)), currentReleaseFunc := Some (length (heap w), creatorID)\<rparr>"
          and "w' = w\<lparr>heap := heap w @ [\<lparr>cvType = structType c, structPtrValue = xs, revision = 1,
                                      users = {creatorID}, cleanupDone = False\<rparr>]\<rparr>"
          and "evs = fevs @ vevs"
          by (simp_all add: load_def newConfigValue_eq)
        with lf' None vev show ?thesis using first by simp
      next
        case (Some rel)
        note rel = Some
        show ?thesis
        proof (cases "currentValue c")
          case None
          with lf' sv' rel ld have "out \<noteq> Returns None" "c' = c" "w' = w" "evs = fevs @ vevs"
            by (auto simp: load_def)
          with lf' rel vev show ?thesis using stuck by simp
        next
          case (Some old)
          show ?thesis
          proof (cases "release (heap w) rel")
            case (Returns p)
            obtain h1 revs where p: "p = (h1, revs)" by (cases p)
            from Returns p have len: "length h1 = length (heap w)" by (simp add: release_length)
            from lf' sv' rel Some Returns p ld have "out = Returns None"
              and "c' = c\<lparr>currentValue := Some (length h1), currentReleaseFunc := Some (length h1, creatorID)\<rparr>"
              and "w' = w\<lparr>heap := h1 @ [\<lparr>cvType = structType c, structPtrValue = xs,
                                      revision = revision (heap w ! old) + 1,
                                      users = {creatorID}, cleanupDone = False\<rparr>]\<rparr>"
              and "evs = fevs @ vevs @ revs"
              by (simp_all add: load_def newConfigValue_eq)
            with lf' rel Some Returns p len vev show ?thesis using again by simp
          next
            case (Panics m)
            with lf' sv' rel Some ld have "out \<noteq> Returns None" "c' = c" "w' = w" "evs = fevs @ vevs"
              by (auto simp: load_def)
            with lf' rel vev show ?thesis using stuck by simp
          next
            case Blocks
            with lf' sv' rel Some ld have "out \<noteq> Returns None" "c' = c" "w' = w" "evs = fevs @ vevs"
              by (auto simp: load_def)
            with lf' rel vev show ?thesis using stuck by simp
          qed
        qed
      qed
    qed
  qed
qed

lemmas binder_defs =
  Add_def Notify_def Use_def use_def load_def loadField_def kept_def sources_Get_def convert_def
  validateValue_def assignableTo_def validateConfigStructType_def validateField_def
  newConfigValue_eq release_eq

lemmas example_defs =
  myConfigStruct_def nameField_def serverField_def serverCreate_def staticConfig_def memSource_def
  failingSource_def world0_def world1_def binder0_def binder1_def revision1_def serverAt_def
  exampleEnv_def plainEnv_def strictEnv_def toyMarshal_def toyUnmarshal_def

lemma Add_example:
  "Add exampleEnv (world0 [staticConfig ''localhost:5555'']) (Some myConfigStruct)
     = (Returns (Inr binder1), world1 [staticConfig ''localhost:5555''] {creatorID},
        [ForField 0 (SourceGet ''inMemory'' ''name''),
         ForField 1 (SourceGet ''inMemory'' ''server''),
         ForField 1 (JsonMarshal (VMap [(''addr'', Some (VString ''localhost:5555''))])),
         ForField 1 (JsonUnmarshal ''localhost:5555'' (TNamed ''main'' ''serverConfig'')),
         ForField 1 (Create (VStruct ''main'' ''serverConfig'' [VString ''localhost:5555''])),
         StructValidate [Some (VString ''Test123''), Some (serverAt ''localhost:5555'')]])"
  by (simp add: binder_defs example_defs)

lemma loadFields_append:
  "loadFields e srcs cur only sn i (pre @ rest) =
     (case loadFields e srcs cur only sn i pre of
        (Exit r, evs) \<Rightarrow> (Exit r, evs)
      | (Continue xs, evs) \<Rightarrow>
          (case loadFields e srcs cur only sn (i + length pre) rest of
             (Exit r, evs') \<Rightarrow> (Exit r, evs @ evs')
           | (Continue ys, evs') \<Rightarrow> (Continue (xs @ ys), evs @ evs')))"
  by (induction pre arbitrary: i) (auto split: prod.splits step.splits)

lemma loadFields_stops:
  assumes "fst (loadFields e srcs cur only sn i pre) = Continue xs"
      and "fst (loadField e srcs cur only sn (i + length pre) f) = Exit r"
  shows "fst (loadFields e srcs cur only sn i (pre @ f # post)) = Exit r"
  using assms
  by (cases "loadFields e srcs cur only sn i pre"; cases "loadField e srcs cur only sn (i + length pre) f")
     (simp add: loadFields_append)

lemma load_failed_unchanged:
  assumes "load e w c only = (out, c', w', evs)" and "out \<noteq> Returns None"
  shows "c' = c \<and> w' = w"
  using assms(1)
proof (cases rule: load_cases)
  case (first xs fevs vevs) with assms(2) show ?thesis by simp
next
  case (again xs fevs vevs rel old h1 revs) with assms(2) show ?thesis by simp
qed simp_all

lemma load_exit:
  assumes "loadFields e (allSources w) (case currentValue c of None \<Rightarrow> None | Some a \<Rightarrow> Some (heap w ! a))
             only (structName c) 0 (structType c) = (Exit r, fevs)"
  shows "load e w c only = (r, c, w, fevs)"
  using assms by (simp add: load_def)

lemma load_invalid:
  assumes "loadFields e (allSources w) (case currentValue c of None \<Rightarrow> None | Some a \<Rightarrow> Some (heap w ! a))
             only (structName c) 0 (structType c) = (Continue xs, fevs)"
      and "structValidator c = Some sv" and "sv xs = Some err"
  shows "load e w c only = (Returns (Some (Wrap err ''invalid config'' [])), c, w, fevs @ [StructValidate xs])"
  using assms by (simp add: load_def)

lemma Notify_load:
  "Notify e w c name = (nout, c1, w1, evs1) \<Longrightarrow>
   snd (load e w c [name]) = (c1, w1, evs1)"
  by (cases "load e w c [name]" rule: prod_cases4)
     (auto simp: Notify_def split: outcome.splits)

lemma Add_not_installed:
  assumes "Add e w t = (aout, w2, evs2)" and "\<forall>b. aout \<noteq> Returns (Inr b)"
  shows "w2 = w"
proof (cases t)
  case None with assms show ?thesis by (simp add: Add_def)
next
  case (Some t0)
  show ?thesis
  proof (cases "validateConfigStructType t0")
    case (Inl err) with Some assms show ?thesis by (simp add: Add_def)
  next
    case (Inr hc)
    let ?c = "\<lparr>structName = templName t0, structType = templFields t0, structValidator = templValidator t0,
               hasConstructedValues = hc, currentValue = None, currentReleaseFunc = None\<rparr>"
    obtain out c' w' evs where ld: "load e w ?c [] = (out, c', w', evs)" by (cases "load e w ?c []" rule: prod_cases4)
    show ?thesis
    proof (cases "out = Returns None")
      case True
      with Some Inr ld assms show ?thesis by (auto simp: Add_def)
    next
      case False
      with ld have "w' = w" using load_failed_unchanged by blast
      with Some Inr ld assms False show ?thesis
        by (cases out) (auto simp: Add_def split: option.splits)
    qed
  qed
qed

lemma Add_needs_load:
  assumes "Add e w (Some t0) = (aout, w2, evs2)" and "validateConfigStructType t0 = Inr hc"
      and "fst (load e w \<lparr>structName = templName t0, structType = templFields t0,
                           structValidator = templValidator t0, hasConstructedValues = hc,
                           currentValue = None, currentReleaseFunc = None\<rparr> []) \<noteq> Returns None"
  shows "(\<forall>b. aout \<noteq> Returns (Inr b)) \<and> w2 = w"
proof -
  let ?c = "\<lparr>structName = templName t0, structType = templFields t0, structValidator = templValidator t0,
             hasConstructedValues = hc, currentValue = None, currentReleaseFunc = None\<rparr>"
  obtain out c' w' evs where ld: "load e w ?c [] = (out, c', w', evs)" by (cases "load e w ?c []" rule: prod_cases4)
  with assms(3) have ne: "out \<noteq> Returns None" by simp
  with ld have "w' = w" using load_failed_unchanged by blast
  with assms(1,2) ld ne show ?thesis
    by (cases out) (auto simp: Add_def split: option.splits)
qed

text \<open>
  Claim C1. A load that does not return nil leaves the configurable and the world as they
  were: the pointer to the current revision is the same, and no release was sent to the
  revision. That holds wherever \<^verbatim>\<open>load\<close> returns from the loop over the fields, whatever it
  returns there, and when the validation of the struct fails. The rounds of the loop return
  an error when the sources fail (a source, the decoding or \<^verbatim>\<open>Validate\<close> of the value), when
  the constructor fails, and when a required constructed field is not configured; when a
  required plain field is not configured the round returns what \<^verbatim>\<open>errors.Wrapf\<close> gives for the
  nil error at hand. The loop stops at the first round that returns. \<^verbatim>\<open>Notify\<close> leaves what
  \<^verbatim>\<open>load\<close> leaves. And when \<^verbatim>\<open>Add\<close> does not return a configurable, it has changed nothing; it
  returns none when the first load does not return nil.
\<close>

theorem failed_load_keeps_current_revision:
  "(load e w c onlyNames = (out, c', w', evs) \<and> out \<noteq> Returns None \<longrightarrow> c' = c \<and> w' = w)
   \<and> (loadFields e (allSources w) (case currentValue c of None \<Rightarrow> None | Some a \<Rightarrow> Some (heap w ! a))
          onlyNames (structName c) 0 (structType c) = (Exit r, fevs)
        \<longrightarrow> load e w c onlyNames = (r, c, w, fevs))
   \<and> (loadFields e (allSources w) (case currentValue c of None \<Rightarrow> None | Some a \<Rightarrow> Some (heap w ! a))
          onlyNames (structName c) 0 (structType c) = (Continue xs, fevs)
        \<and> structValidator c = Some sv \<and> sv xs = Some verr
        \<longrightarrow> load e w c onlyNames
              = (Returns (Some (Wrap verr ''invalid config'' [])), c, w, fevs @ [StructValidate xs]))
   \<and> (Notify e w c name = (nout, c1, w1, evs1) \<and> fst (load e w c [name]) \<noteq> Returns None
        \<longrightarrow> c1 = c \<and> w1 = w)
   \<and> (Add e w t = (aout, w2, evs2) \<and> (\<forall>b. aout \<noteq> Returns (Inr b)) \<longrightarrow> w2 = w)
   \<and> (Add e w (Some t0) = (aout, w2, evs2) \<and> validateConfigStructType t0 = Inr hc
        \<and> fst (load e w \<lparr>structName = templName t0, structType = templFields t0,
                             structValidator = templValidator t0, hasConstructedValues = hc,
                             currentValue = None, currentReleaseFunc = None\<rparr> []) \<noteq> Returns None
        \<longrightarrow> (\<forall>b. aout \<noteq> Returns (Inr b)) \<and> w2 = w)
   \<and> (\<not> kept cur onlyNames f \<and> constructor f = None
        \<and> fst (sources_Get e srcs (tag f) (dflt f)) = Inl err
        \<longrightarrow> fst (loadField e srcs cur onlyNames sn i f)
              = Exit (Returns (Some (Wrap err ''%s.%s: cannot get config %s'' [sn, fname f, tag f]))))
   \<and> (\<not> kept cur onlyNames f \<and> constructor f = None \<and> \<not> kindPtr (ftype f)
        \<and> fst (sources_Get e srcs (tag f) (dflt f)) = Inr None
        \<longrightarrow> fst (loadField e srcs cur onlyNames sn i f)
              = Exit (Returns (wrapfNil e ''%s.%s: missing config %s'' [sn, fname f, tag f])))
   \<and> (\<not> kept cur onlyNames f \<and> constructor f = Some m
        \<and> fst (sources_Get e srcs (tag f) (argZero m)) = Inl err
        \<longrightarrow> fst (loadField e srcs cur onlyNames sn i f)
              = Exit (Returns (Some (Wrap err ''config error on %s'' [tag f]))))
   \<and> (\<not> kept cur onlyNames f \<and> constructor f = Some m \<and> \<not> kindPtr (ftype f)
        \<and> fst (sources_Get e srcs (tag f) (argZero m)) = Inr None
        \<longrightarrow> fst (loadField e srcs cur onlyNames sn i f)
              = Exit (Returns (Some (Errorf ''config required for %s'' [tag f]))))
   \<and> (\<not> kept cur onlyNames f \<and> constructor f = Some m
        \<and> fst (sources_Get e srcs (tag f) (argZero m)) = Inr (Some v)
        \<and> assignableTo (typeOf v) (In1 m) \<and> Call m v = Inl err
        \<longrightarrow> fst (loadField e srcs cur onlyNames sn i f)
              = Exit (Returns (Some (Wrap err ''%s.%s: %s.%s() failed''
                                       [sn, fname f, typeName (ftype f), ''Create'']))))
   \<and> (fst (loadFields e srcs cur onlyNames sn i pre) = Continue ys
        \<and> fst (loadField e srcs cur onlyNames sn (i + length pre) f) = Exit r
        \<longrightarrow> fst (loadFields e srcs cur onlyNames sn i (pre @ f # post)) = Exit r)"
  (is "?C1 \<and> ?C2 \<and> ?C3 \<and> ?C4 \<and> ?C5 \<and> ?C6 \<and> ?C7 \<and> ?C8 \<and> ?C9 \<and> ?C10 \<and> ?C11 \<and> ?C12")
proof -
  have c1: ?C1 using load_failed_unchanged by blast
  have c2: ?C2 using load_exit by blast
  have c3: ?C3 using load_invalid by blast
  have c4: ?C4
  proof
    assume a: "Notify e w c name = (nout, c1, w1, evs1) \<and> fst (load e w c [name]) \<noteq> Returns None"
    then have "snd (load e w c [name]) = (c1, w1, evs1)" using Notify_load by blast
    then have "load e w c [name] = (fst (load e w c [name]), c1, w1, evs1)" by (metis prod.collapse)
    with a show "c1 = c \<and> w1 = w" using load_failed_unchanged by blast
  qed
  have c5: ?C5 using Add_not_installed by blast
  have c6: ?C6 using Add_needs_load by blast
  have c7: ?C7 by (cases "sources_Get e srcs (tag f) (dflt f)") (simp add: loadField_def)
  have c8: ?C8 by (cases "sources_Get e srcs (tag f) (dflt f)") (simp add: loadField_def)
  have c9: ?C9 by (cases "sources_Get e srcs (tag f) (argZero m)") (simp add: loadField_def)
  have c10: ?C10 by (cases "sources_Get e srcs (tag f) (argZero m)") (simp add: loadField_def)
  have c11: ?C11 by (cases "sources_Get e srcs (tag f) (argZero m)") (simp add: loadField_def)
  have c12: ?C12 using loadFields_stops by blast
  show ?thesis by (intro conjI) (fact c1 c2 c3 c4 c5 c6 c7 c8 c9 c10 c11 c12)+
qed

theorem failed_load_keeps_current_revision_witness:
  "fst (load exampleEnv (world1 [failingSource] {creatorID, ''main.go:32''}) binder1 [''server''])
     = Returns (Some (Wrap (Wrap (Wrap (Errorf ''cannot connect'' []) ''source(%s).Get(%s) failed'' [''broken'', ''server''])
                              ''failed to get(%s)'' [''server''])
                        ''config error on %s'' [''server'']))
   \<and> fst (snd (Notify exampleEnv (world1 [failingSource] {creatorID, ''main.go:32''}) binder1 ''server'')) = binder1
   \<and> fst (snd (snd (Notify exampleEnv (world1 [failingSource] {creatorID, ''main.go:32''}) binder1 ''server'')))
       = world1 [failingSource] {creatorID, ''main.go:32''}
   \<and> fst (Add exampleEnv (world0 [memSource []]) (Some myConfigStruct))
       = Returns (Inl (Wrap (Errorf ''%s.%s: missing config %s'' [''myConfigStruct'', ''Name'', ''name''])
                         ''failed on init load'' []))
   \<and> fst (snd (Add exampleEnv (world0 [memSource []]) (Some myConfigStruct))) = world0 [memSource []]"
proof -
  let ?w = "world1 [failingSource] {creatorID, ''main.go:32''}"
  let ?N = "Notify exampleEnv ?w binder1 ''server''"
  let ?A = "Add exampleEnv (world0 [memSource []]) (Some myConfigStruct)"
  have l: "fst (load exampleEnv ?w binder1 [''server''])
     = Returns (Some (Wrap (Wrap (Wrap (Errorf ''cannot connect'' []) ''source(%s).Get(%s) failed'' [''broken'', ''server''])
                              ''failed to get(%s)'' [''server''])
                        ''config error on %s'' [''server'']))"
    by (simp add: binder_defs example_defs)
  have n: "?N = (fst ?N, fst (snd ?N), fst (snd (snd ?N)), snd (snd (snd ?N)))" by simp
  have a: "?A = (fst ?A, fst (snd ?A), snd (snd ?A))" by simp
  have af: "fst ?A = Returns (Inl (Wrap (Errorf ''%s.%s: missing config %s'' [''myConfigStruct'', ''Name'', ''name''])
                         ''failed on init load'' []))"
    by (simp add: binder_defs example_defs)
  have r1: "fst (snd ?N) = binder1 \<and> fst (snd (snd ?N)) = ?w"
    using failed_load_keeps_current_revision [where e = exampleEnv and w = ?w and c = binder1
        and name = "''server''" and nout = "fst ?N" and ?c1.0 = "fst (snd ?N)" and ?w1.0 = "fst (snd (snd ?N))"
        and ?evs1.0 = "snd (snd (snd ?N))"] n l
    by simp
  have r2: "fst (snd ?A) = world0 [memSource []]"
    using failed_load_keeps_current_revision [where e = exampleEnv and w = "world0 [memSource []]"
        and t = "Some myConfigStruct" and aout = "fst ?A" and ?w2.0 = "fst (snd ?A)" and ?evs2.0 = "snd (snd ?A)"]
      a af
    by simp
  show ?thesis using l af r1 r2 by simp
qed

lemma kept_one_name: "kept (Some cv) [name] f \<longleftrightarrow> tag f \<noteq> name"
  by (simp add: kept_def)

lemma loadField_not_kept:
  "\<not> kept cur only f \<Longrightarrow> loadField e srcs cur only sn i f = loadField e srcs None [] sn i f"
proof -
  assume "\<not> kept cur only f"
  moreover have "\<not> kept None [] f" by (simp add: kept_def)
  ultimately show ?thesis by (simp add: loadField_def)
qed

lemma load_field_events:
  assumes "load e w c only = (out, c', w', evs)" and "ForField j ev \<in> set evs"
  shows "ForField j ev \<in> set (snd (loadFields e (allSources w)
            (case currentValue c of None \<Rightarrow> None | Some a \<Rightarrow> Some (heap w ! a)) only (structName c) 0 (structType c)))"
  using assms(1)
proof (cases rule: load_cases)
  case (exit r) with assms(2) show ?thesis by simp
next
  case (invalid xs fevs v err) with assms(2) show ?thesis by auto
next
  case (stuck xs fevs vevs)
  then have "\<not> isForField x" if "x \<in> set vevs" for x using that by blast
  then have "ForField j ev \<notin> set vevs" by fastforce
  with stuck assms(2) show ?thesis by auto
next
  case (first xs fevs vevs)
  then have "\<not> isForField x" if "x \<in> set vevs" for x using that by blast
  then have "ForField j ev \<notin> set vevs" by fastforce
  with first assms(2) show ?thesis by auto
next
  case (again xs fevs vevs rel old h1 revs)
  then have "\<not> isForField x" if "x \<in> set vevs" for x using that by blast
  then have v: "ForField j ev \<notin> set vevs" by fastforce
  have "isDestroy x" if "x \<in> set revs" for x using that again(4) release_events by blast
  then have "ForField j ev \<notin> set revs" by fastforce
  with v again assms(2) show ?thesis by auto
qed

lemma load_installed_slots:
  assumes "load e w c only = (out, c', w', evs)" and "c' \<noteq> c"
  shows "out = Returns None \<and> currentValue c' = Some (length (heap w))
         \<and> length (heap w') = Suc (length (heap w))
         \<and> (\<exists>fevs. loadFields e (allSources w)
               (case currentValue c of None \<Rightarrow> None | Some a \<Rightarrow> Some (heap w ! a)) only (structName c) 0 (structType c)
               = (Continue (structPtrValue (heap w' ! length (heap w))), fevs))"
  using assms(1)
proof (cases rule: load_cases)
  case (first xs fevs vevs) then show ?thesis by simp
next
  case (again xs fevs vevs rel old h1 revs)
  moreover from again(4) have "length h1 = length (heap w)" by (rule release_length)
  ultimately show ?thesis by (simp add: nth_append)
qed (use assms(2) in simp_all)

text \<open>
  Claim C3. The binder has a current revision, at \<open>a\<close>, and is notified of \<open>name\<close>. For every
  field whose tag is not \<open>name\<close>, the round of the loop makes no call at all and gives the
  value the field has in the current revision; for a field whose tag is \<open>name\<close> the round is
  the round of a full load. Every call that \<^verbatim>\<open>Notify\<close> makes in a round of the loop is made for
  a field whose tag is \<open>name\<close>. And when \<^verbatim>\<open>Notify\<close> installs a revision, it is one new
  revision, in which every field whose tag is not \<open>name\<close> has the value of the current one.
\<close>

theorem Notify_reloads_only_the_named_fields:
  assumes "currentValue c = Some a" and "Notify e w c name = (out, c', w', evs)"
  shows
    "(\<forall>j. j < length (structType c) \<and> tag (structType c ! j) \<noteq> name \<longrightarrow>
        loadField e (allSources w) (Some (heap w ! a)) [name] (structName c) j (structType c ! j)
          = (Continue (structPtrValue (heap w ! a) ! j), []))
   \<and> (\<forall>j. j < length (structType c) \<and> tag (structType c ! j) = name \<longrightarrow>
        loadField e (allSources w) (Some (heap w ! a)) [name] (structName c) j (structType c ! j)
          = loadField e (allSources w) None [] (structName c) j (structType c ! j))
   \<and> (\<forall>j ev. ForField j ev \<in> set evs \<longrightarrow> j < length (structType c) \<and> tag (structType c ! j) = name)
   \<and> (c' \<noteq> c \<longrightarrow>
        out = Returns () \<and> currentValue c' = Some (length (heap w))
        \<and> length (heap w') = Suc (length (heap w))
        \<and> (\<forall>j. j < length (structType c) \<and> tag (structType c ! j) \<noteq> name \<longrightarrow>
              structPtrValue (heap w' ! length (heap w)) ! j = structPtrValue (heap w ! a) ! j))"
  (is "?C1 \<and> ?C2 \<and> ?C3 \<and> ?C4")
proof -
  let ?lf = "loadFields e (allSources w) (Some (heap w ! a)) [name] (structName c) 0 (structType c)"
  obtain lout where ld: "load e w c [name] = (lout, c', w', evs)"
    using assms(2) Notify_load [of e w c name out c' w' evs]
    by (cases "load e w c [name]" rule: prod_cases4) simp
  have cur: "(case currentValue c of None \<Rightarrow> None | Some x \<Rightarrow> Some (heap w ! x)) = Some (heap w ! a)"
    using assms(1) by simp
  have c1: ?C1 by (simp add: loadField_kept kept_one_name)
  have c2: ?C2 using loadField_not_kept [of "Some (heap w ! a)" "[name]"] by (simp add: kept_one_name)
  have c3: ?C3
  proof (intro allI impI)
    fix j ev assume "ForField j ev \<in> set evs"
    then have "ForField j ev \<in> set (snd ?lf)" using load_field_events [OF ld] cur by simp
    then obtain j' ev' where "ForField j ev = ForField j' ev'" "0 \<le> j'" "j' < 0 + length (structType c)"
        "\<not> kept (Some (heap w ! a)) [name] (structType c ! (j' - 0))"
      using loadFields_events [of e "allSources w" "Some (heap w ! a)" "[name]" "structName c" 0 "structType c"
               "fst ?lf" "snd ?lf" "ForField j ev"]
      by auto
    then show "j < length (structType c) \<and> tag (structType c ! j) = name"
      by (simp add: kept_one_name)
  qed
  have c4: ?C4
  proof
    assume ne: "c' \<noteq> c"
    from load_installed_slots [OF ld ne] cur obtain fevs where
      i: "lout = Returns None" "currentValue c' = Some (length (heap w))"
         "length (heap w') = Suc (length (heap w))"
         "?lf = (Continue (structPtrValue (heap w' ! length (heap w))), fevs)"
      by auto
    have o: "out = Returns ()" using assms(2) ld i(1) by (simp add: Notify_def)
    have "structPtrValue (heap w' ! length (heap w)) ! j = structPtrValue (heap w ! a) ! j"
      if "j < length (structType c)" "tag (structType c ! j) \<noteq> name" for j
      using loadFields_kept [OF i(4), of j] that by (simp add: kept_one_name)
    with o i show "out = Returns () \<and> currentValue c' = Some (length (heap w))
        \<and> length (heap w') = Suc (length (heap w))
        \<and> (\<forall>j. j < length (structType c) \<and> tag (structType c ! j) \<noteq> name \<longrightarrow>
              structPtrValue (heap w' ! length (heap w)) ! j = structPtrValue (heap w ! a) ! j)"
      by blast
  qed
  show ?thesis by (intro conjI) (fact c1 c2 c3 c4)+
qed

theorem Notify_reloads_only_the_named_fields_witness:
  "Notify exampleEnv (world1 [staticConfig ''localhost:6666''] {creatorID, ''main.go:32''}) binder1 ''server''
     = (Returns (),
        binder1\<lparr>currentValue := Some 1, currentReleaseFunc := Some (1, creatorID)\<rparr>,
        \<lparr>allSources = [staticConfig ''localhost:6666''],
         heap = [revision1 {''main.go:32''},
                 \<lparr>cvType = [nameField, serverField],
                  structPtrValue = [Some (VString ''Test123''), Some (serverAt ''localhost:6666'')],
                  revision = 2, users = {creatorID}, cleanupDone = False\<rparr>],
         configurableList = [binder1]\<rparr>,
        [ForField 1 (SourceGet ''inMemory'' ''server''),
         ForField 1 (JsonMarshal (VMap [(''addr'', Some (VString ''localhost:6666''))])),
         ForField 1 (JsonUnmarshal ''localhost:6666'' (TNamed ''main'' ''serverConfig'')),
         ForField 1 (Create (VStruct ''main'' ''serverConfig'' [VString ''localhost:6666''])),
         StructValidate [Some (VString ''Test123''), Some (serverAt ''localhost:6666'')]])
   \<and> structPtrValue (revision1 {''main.go:32''}) ! 0 = Some (VString ''Test123'')
   \<and> loadField exampleEnv [staticConfig ''localhost:6666''] (Some (revision1 {creatorID, ''main.go:32''}))
        [''server''] ''myConfigStruct'' 0 nameField = (Continue (Some (VString ''Test123'')), [])
   \<and> tag (structType binder1 ! 1) = ''server''"
proof -
  let ?w = "world1 [staticConfig ''localhost:6666''] {creatorID, ''main.go:32''}"
  have cur: "currentValue binder1 = Some 0" by (simp add: binder1_def)
  have n: "Notify exampleEnv ?w binder1 ''server''
     = (Returns (),
        binder1\<lparr>currentValue := Some 1, currentReleaseFunc := Some (1, creatorID)\<rparr>,
        \<lparr>allSources = [staticConfig ''localhost:6666''],
         heap = [revision1 {''main.go:32''},
                 \<lparr>cvType = [nameField, serverField],
                  structPtrValue = [Some (VString ''Test123''), Some (serverAt ''localhost:6666'')],
                  revision = 2, users = {creatorID}, cleanupDone = False\<rparr>],
         configurableList = [binder1]\<rparr>,
        [ForField 1 (SourceGet ''inMemory'' ''server''),
         ForField 1 (JsonMarshal (VMap [(''addr'', Some (VString ''localhost:6666''))])),
         ForField 1 (JsonUnmarshal ''localhost:6666'' (TNamed ''main'' ''serverConfig'')),
         ForField 1 (Create (VStruct ''main'' ''serverConfig'' [VString ''localhost:6666''])),
         StructValidate [Some (VString ''Test123''), Some (serverAt ''localhost:6666'')]])"
    by (simp add: binder_defs example_defs creatorID_def insert_Diff_if)
  have s: "structPtrValue (revision1 {''main.go:32''}) ! 0 = Some (VString ''Test123'')"
    by (simp add: revision1_def)
  have t: "tag (structType binder1 ! 1) = ''server''" "tag nameField \<noteq> ''server''"
      "structType binder1 ! 0 = nameField" "structName binder1 = ''myConfigStruct''"
      "length (structType binder1) = 2"
    by (simp_all add: binder1_def binder0_def serverField_def nameField_def)
  have h: "heap ?w ! 0 = revision1 {creatorID, ''main.go:32''}"
      "allSources ?w = [staticConfig ''localhost:6666'']"
    by (simp_all add: world1_def)
  have "loadField exampleEnv (allSources ?w) (Some (heap ?w ! 0)) [''server''] (structName binder1) 0
          (structType binder1 ! 0) = (Continue (structPtrValue (heap ?w ! 0) ! 0), [])"
    using conjunct1 [OF Notify_reloads_only_the_named_fields [OF cur n], rule_format, of 0] t by simp
  then have l: "loadField exampleEnv [staticConfig ''localhost:6666''] (Some (revision1 {creatorID, ''main.go:32''}))
        [''server''] ''myConfigStruct'' 0 nameField = (Continue (Some (VString ''Test123'')), [])"
    using t h s by (simp add: revision1_def)
  show ?thesis using n s l t(1) by simp
qed

end
